theory Spec2Isabelle
  imports Main "HOL-Library.Sublist"
begin

section \<open>The RSA demo of \<^verbatim>\<open>src/main.cpp\<close>\<close>

text \<open>
  The program is one Arduino sketch: \<^verbatim>\<open>setup\<close> loads two DER key files from the SD
  card, seeds a random generator, parses the keys, encrypts a fixed message, decrypts it
  again and prints every step on the serial console. All cryptography is done by the
  mbedtls library, and all file access by the board's SD library; neither is part of the
  sketch. The model therefore takes both as parameters: a record of library functions and
  a record describing how the board answers. What the sketch itself does (the order of the
  calls, the arguments it passes, the buffers it keeps, which return values it tests and
  where it stops) is translated from the source.
\<close>

subsection \<open>Constants and buffers\<close>

text \<open>\<^verbatim>\<open>char\<close> and \<^verbatim>\<open>unsigned char\<close> are 8-bit bytes; a buffer is the list of its bytes.\<close>

type_synonym bytes = "char list"

definition NUL :: char where
  "NUL = CHR 0x00"

definition RSA_KEY_SIZE :: nat where
  "RSA_KEY_SIZE = 2048"

definition MAX_MESSAGE_LENGTH :: nat where
  "MAX_MESSAGE_LENGTH = 100"

definition MAX_ENCRYPTED_LENGTH :: nat where
  "MAX_ENCRYPTED_LENGTH = 256"

definition PRIVATE_KEY_FILE :: string where
  "PRIVATE_KEY_FILE = ''/private.der''"

definition PUBLIC_KEY_FILE :: string where
  "PUBLIC_KEY_FILE = ''/public.der''"

definition message :: string where
  "message = ''Hello, Wio Terminal with RSA encryption!''"

text \<open>The personalisation string \<^verbatim>\<open>pers\<close> of \<^verbatim>\<open>setup\<close> (line 71).\<close>

definition pers :: string where
  "pers = ''rsa_encrypt''"

text \<open>A zero-initialised array, \<^verbatim>\<open>T buf[n] = {0}\<close>.\<close>

definition zeroed :: "nat \<Rightarrow> bytes" where
  "zeroed n = replicate n NUL"

subsection \<open>The mbedtls library, as a parameter\<close>

text \<open>
  Each field is one library function the sketch calls. A pointer with a length is passed as
  the bytes it designates. A call returns the C return code (\<^verbatim>\<open>0\<close> is success) and what it
  leaves behind: the parsed key context, the new state of the random generator, the bytes
  it wrote to the output buffer (their number is what it stores through \<^verbatim>\<open>olen\<close>).
  The entropy source is part of \<open>mbedtls_ctr_drbg_seed\<close>.
  \<open>mbedtls_strerror\<close> gets the code and the size of the text buffer and returns the text.
\<close>

record ('pk, 'rng) mbedtls =
  mbedtls_ctr_drbg_seed :: "bytes \<Rightarrow> int \<times> 'rng"
  mbedtls_pk_parse_public_key :: "bytes \<Rightarrow> int \<times> 'pk"
  mbedtls_pk_parse_key :: "bytes \<Rightarrow> int \<times> 'pk"
  mbedtls_pk_encrypt :: "'pk \<Rightarrow> bytes \<Rightarrow> nat \<Rightarrow> 'rng \<Rightarrow> int \<times> bytes \<times> 'rng"
  mbedtls_pk_decrypt :: "'pk \<Rightarrow> bytes \<Rightarrow> nat \<Rightarrow> 'rng \<Rightarrow> int \<times> bytes \<times> 'rng"
  mbedtls_strerror :: "int \<Rightarrow> nat \<Rightarrow> string"

subsection \<open>The board, as a parameter\<close>

text \<open>
  \<open>Serial_ready_after\<close>: the number of polls of \<^verbatim>\<open>while (!Serial)\<close> that find the console
  not ready, \<open>None\<close> when it never becomes ready.
  \<open>SD_begin\<close>: the result of \<^verbatim>\<open>SD.begin\<close>.
  \<open>SD_open k name\<close>: what the \<open>k\<close>-th call of \<^verbatim>\<open>SD.open\<close> of the run finds under \<open>name\<close>:
  the contents of the file, or \<open>None\<close> when the open fails. The sketch opens each key file
  twice (calls 0 and 1 load the keys, calls 2 and 3 ask for the sizes), and the card may
  answer each call differently (a card that is pulled out, an I/O error).
  \<open>size_unopened\<close>: the value \<^verbatim>\<open>File::size()\<close> yields on a file object whose open failed.
\<close>

record board =
  Serial_ready_after :: "nat option"
  SD_begin :: bool
  SD_open :: "nat \<Rightarrow> string \<Rightarrow> bytes option"
  size_unopened :: nat

subsection \<open>What a run does: events and outcomes\<close>

text \<open>
  The trace of a run lists, in order, what the sketch prints and which calls it makes.
  A call event carries the arguments as the sketch passes them: a buffer argument is the
  whole array the pointer points into, next to the length passed with it. The events of
  \<^verbatim>\<open>mbedtls_pk_encrypt\<close> and \<^verbatim>\<open>mbedtls_pk_decrypt\<close> also carry the results: the return code
  and the length stored through \<^verbatim>\<open>olen\<close>.
\<close>

datatype event =
    Serial_Begin nat
  | Delay nat
  | Print string
  | Println string
  | Sd_Begin
  | Sd_Open string
  | Ctx_Init string
  | Ctx_Free string
  | Ctr_Drbg_Seed bytes nat
  | Pk_Parse_Public_Key bytes nat
  | Pk_Parse_Key bytes nat
  | Pk_Encrypt bytes nat bytes nat int nat
  | Pk_Decrypt bytes nat bytes nat int nat

text \<open>The eight \<^verbatim>\<open>while (1);\<close> statements of \<^verbatim>\<open>setup\<close>, by the check that leads to them.\<close>

datatype halt_site =
    Halt_SD_Init
  | Halt_Load_Public
  | Halt_Load_Private
  | Halt_Seed
  | Halt_Parse_Public
  | Halt_Parse_Private
  | Halt_Encrypt
  | Halt_Decrypt

text \<open>
  The places where the sketch, or the library on its behalf, can touch memory outside an
  array. C leaves the behaviour undefined from there on, so the run is cut at that point.
\<close>

datatype access =
    Parse_Public_Read
  | Parse_Private_Read
  | Encrypt_Write
  | Decrypt_Write
  | Nul_Store

text \<open>
  \<open>Waiting_Serial\<close>: the first loop never ends. \<open>Halted s\<close>: the run has entered the
  \<^verbatim>\<open>while (1);\<close> at \<open>s\<close>, which has no exit and no effect. \<open>Out_Of_Bounds a\<close>: see above.
  \<open>Completed\<close>: \<^verbatim>\<open>setup\<close> has returned (the Arduino core then calls \<^verbatim>\<open>loop\<close> for ever,
  which only delays).
\<close>

datatype outcome =
    Waiting_Serial
  | Halted halt_site
  | Out_Of_Bounds access
  | Completed

type_synonym run = "event list \<times> outcome"

text \<open>\<open>emit es r\<close>: the events \<open>es\<close> happen, then the run goes on as \<open>r\<close>.\<close>

definition emit :: "event list \<Rightarrow> run \<Rightarrow> run" where
  "emit es r = (es @ fst r, snd r)"

text \<open>\<^verbatim>\<open>while (1);\<close>\<close>

definition halt :: "halt_site \<Rightarrow> run" where
  "halt s = ([], Halted s)"

subsection \<open>Console formatting\<close>

text \<open>\<^verbatim>\<open>Serial.print\<close> of a \<^verbatim>\<open>size_t\<close>: the decimal digits.\<close>

definition digit :: "nat \<Rightarrow> char" where
  "digit d = char_of (48 + d)"

fun dec :: "nat \<Rightarrow> string" where
  "dec n = (if n < 10 then [digit n] else dec (n div 10) @ [digit (n mod 10)])"

declare dec.simps [simp del]

text \<open>\<^verbatim>\<open>sprintf(hex, "%02X", encrypted[i])\<close>: two upper-case hexadecimal digits.\<close>

definition hex_digit :: "nat \<Rightarrow> char" where
  "hex_digit d = (if d < 10 then char_of (48 + d) else char_of (55 + d))"

definition hex :: "char \<Rightarrow> string" where
  "hex c = [hex_digit (of_char c div 16), hex_digit (of_char c mod 16)]"

text \<open>\<^verbatim>\<open>Serial.println((char *) buf)\<close> prints the bytes before the first NUL.\<close>

definition cstr :: "bytes \<Rightarrow> string" where
  "cstr buf = takeWhile (\<lambda>c. c \<noteq> NUL) buf"

subsection \<open>\<^verbatim>\<open>loadKeyFromSD\<close> and \<^verbatim>\<open>displayRsaStatus\<close>\<close>

text \<open>
  \<^verbatim>\<open>file.readBytes(buffer, len)\<close> copies the first \<open>len\<close> bytes of the file, or all of them
  when the file is shorter, to the start of the buffer and returns their number. Both
  callers pass the size of the array as \<open>len\<close>.
\<close>

definition readBytes :: "bytes \<Rightarrow> bytes \<Rightarrow> nat \<Rightarrow> bytes \<times> nat" where
  "readBytes content buffer len =
     (let n = min (length content) len
      in (take n content @ drop n buffer, n))"

text \<open>
  \<open>k\<close> is the number of the \<^verbatim>\<open>SD.open\<close> call. The result is the console output, the buffer
  as the call leaves it, and the returned \<^verbatim>\<open>bool\<close>.
\<close>

definition loadKeyFromSD :: "board \<Rightarrow> nat \<Rightarrow> string \<Rightarrow> bytes \<Rightarrow> nat \<Rightarrow> event list \<times> bytes \<times> bool" where
  "loadKeyFromSD b k filename buffer buffer_size =
     (case SD_open b k filename of
        None \<Rightarrow>
          ([Sd_Open filename, Print ''Failed to open file: '', Println filename],
           buffer, False)
      | Some content \<Rightarrow>
          (case readBytes content buffer buffer_size of
             (buffer', bytes_read) \<Rightarrow>
               ([Sd_Open filename, Print ''Loaded '', Print (dec bytes_read),
                 Print '' bytes from '', Println filename],
                buffer', bytes_read > 0)))"

definition displayRsaStatus :: "('pk, 'rng) mbedtls \<Rightarrow> int \<Rightarrow> event list" where
  "displayRsaStatus lib ret_val = [Println (mbedtls_strerror lib ret_val 100)]"

text \<open>
  Lines 105 to 111: \<^verbatim>\<open>File f = SD.open(name, FILE_READ); size_t n = f.size(); f.close();\<close>
  The file object is not tested.
\<close>

definition file_size :: "board \<Rightarrow> nat \<Rightarrow> string \<Rightarrow> nat" where
  "file_size b k filename =
     (case SD_open b k filename of
        None \<Rightarrow> size_unopened b
      | Some content \<Rightarrow> length content)"

text \<open>
  A library call that wrote \<open>out\<close> to the start of the output array: the array afterwards,
  or \<open>None\<close> when \<open>out\<close> does not fit in it.
\<close>

definition write_output :: "bytes \<Rightarrow> bytes \<Rightarrow> bytes option" where
  "write_output buffer out =
     (if length out \<le> length buffer then Some (out @ drop (length out) buffer) else None)"

subsection \<open>\<^verbatim>\<open>setup\<close>\<close>

text \<open>
  The body of \<^verbatim>\<open>setup\<close>, statement by statement, cut at the source's own comment
  headings into one definition per block, last block first. Each block takes the local
  variables that are live when it starts and ends in a \<^verbatim>\<open>while (1);\<close> or in the next block.
  Each \<open>emit\<close> lists the prints and calls up to the next test.
\<close>

text \<open>
  Lines 161 to 185, \<^verbatim>\<open>// Decryption\<close> to the end. The store
  \<^verbatim>\<open>decrypted[decrypted_length] = '\0'\<close> is inside the array only for an index below its
  length.
\<close>

definition setup_decrypt ::
  "('pk, 'rng) mbedtls \<Rightarrow> 'pk \<Rightarrow> 'rng \<Rightarrow> bytes \<Rightarrow> nat \<Rightarrow> bytes \<Rightarrow> run" where
  "setup_decrypt lib pk_ctx_priv ctr_drbg encrypted encrypted_length decrypted =
   emit [Println ''Decrypting...'']
   (case mbedtls_pk_decrypt lib pk_ctx_priv (take encrypted_length encrypted)
           MAX_MESSAGE_LENGTH ctr_drbg of
      (ret, out, ctr_drbg') \<Rightarrow>
    emit [Pk_Decrypt encrypted encrypted_length decrypted MAX_MESSAGE_LENGTH
            ret (length out)]
   (if ret \<noteq> 0 then
      emit (Print ''Decryption failed: '' # displayRsaStatus lib ret) (halt Halt_Decrypt)
    else
    case write_output decrypted out of
      None \<Rightarrow> ([], Out_Of_Bounds Decrypt_Write)
    | Some decrypted' \<Rightarrow>
    let decrypted_length = length out in
    if length decrypted' \<le> decrypted_length then ([], Out_Of_Bounds Nul_Store)
    else
    let decrypted'' = decrypted'[decrypted_length := NUL] in
    ([Print ''Decrypted message: '', Println (cstr decrypted''),
      Ctx_Free ''pk_ctx_pub'', Ctx_Free ''pk_ctx_priv'',
      Ctx_Free ''ctr_drbg'', Ctx_Free ''entropy'',
      Println ''Demo completed!''],
     Completed)))"

text \<open>
  Lines 136 to 159, from \<^verbatim>\<open>Keys parsed successfully!\<close> through \<^verbatim>\<open>// Encryption\<close> and the
  hexadecimal print. The loop \<^verbatim>\<open>for (i = 0; i < encrypted_length; i++)\<close> prints the first
  \<open>encrypted_length\<close> bytes of the array, one \<^verbatim>\<open>Serial.print\<close> each.
\<close>

definition setup_encrypt ::
  "('pk, 'rng) mbedtls \<Rightarrow> 'pk \<Rightarrow> 'pk \<Rightarrow> 'rng \<Rightarrow> bytes \<Rightarrow> bytes \<Rightarrow> run" where
  "setup_encrypt lib pk_ctx_pub pk_ctx_priv ctr_drbg encrypted decrypted =
   emit [Println ''Keys parsed successfully!'',
         Print ''Original message: '', Println message,
         Println ''Encrypting...'']
   (case mbedtls_pk_encrypt lib pk_ctx_pub message MAX_ENCRYPTED_LENGTH ctr_drbg of
      (ret, out, ctr_drbg') \<Rightarrow>
    emit [Pk_Encrypt message (length message) encrypted MAX_ENCRYPTED_LENGTH
            ret (length out)]
   (if ret \<noteq> 0 then
      emit (Print ''Encryption failed: '' # displayRsaStatus lib ret) (halt Halt_Encrypt)
    else
    case write_output encrypted out of
      None \<Rightarrow> ([], Out_Of_Bounds Encrypt_Write)
    | Some encrypted' \<Rightarrow>
    let encrypted_length = length out in
    emit (Print ''Encrypted message (hex): '' #
          map (\<lambda>c. Print (hex c)) (take encrypted_length encrypted') @
          [Println []])
         (setup_decrypt lib pk_ctx_priv ctr_drbg' encrypted' encrypted_length decrypted)))"

text \<open>
  Lines 104 to 134, \<^verbatim>\<open>// Get file sizes\<close> and the two parse calls. The sizes come from
  opens number 2 and 3. A parse call is given the array and the size of the file; when
  that size is larger than the array the library is told to read past its end.
\<close>

definition setup_parse ::
  "('pk, 'rng) mbedtls \<Rightarrow> board \<Rightarrow> 'rng \<Rightarrow> bytes \<Rightarrow> bytes \<Rightarrow> bytes \<Rightarrow> bytes \<Rightarrow> run" where
  "setup_parse lib b ctr_drbg public_key_buf private_key_buf encrypted decrypted =
   (let pubKeySize = file_size b 2 PUBLIC_KEY_FILE;
        privKeySize = file_size b 3 PRIVATE_KEY_FILE
    in
    emit [Sd_Open PUBLIC_KEY_FILE, Sd_Open PRIVATE_KEY_FILE,
          Print ''Public key size: '', Println (dec pubKeySize),
          Print ''Private key size: '', Println (dec privKeySize),
          Pk_Parse_Public_Key public_key_buf pubKeySize]
   (if length public_key_buf < pubKeySize then ([], Out_Of_Bounds Parse_Public_Read)
    else
    case mbedtls_pk_parse_public_key lib (take pubKeySize public_key_buf) of
      (ret, pk_ctx_pub) \<Rightarrow>
    if ret \<noteq> 0 then
      emit (Print ''Failed to parse public key: '' # displayRsaStatus lib ret)
           (halt Halt_Parse_Public)
    else
    emit [Pk_Parse_Key private_key_buf privKeySize]
   (if length private_key_buf < privKeySize then ([], Out_Of_Bounds Parse_Private_Read)
    else
    case mbedtls_pk_parse_key lib (take privKeySize private_key_buf) of
      (ret, pk_ctx_priv) \<Rightarrow>
    if ret \<noteq> 0 then
      emit (Print ''Failed to parse private key: '' # displayRsaStatus lib ret)
           (halt Halt_Parse_Private)
    else
    setup_encrypt lib pk_ctx_pub pk_ctx_priv ctr_drbg encrypted decrypted)))"

text \<open>
  Lines 87 to 102: the four context initialisations and \<^verbatim>\<open>// Seed the random number
  generator\<close>.
\<close>

definition setup_seed ::
  "('pk, 'rng) mbedtls \<Rightarrow> board \<Rightarrow> bytes \<Rightarrow> bytes \<Rightarrow> bytes \<Rightarrow> bytes \<Rightarrow> run" where
  "setup_seed lib b public_key_buf private_key_buf encrypted decrypted =
   emit [Println ''Keys loaded successfully!'',
         Ctx_Init ''pk_ctx_pub'', Ctx_Init ''pk_ctx_priv'',
         Ctx_Init ''entropy'', Ctx_Init ''ctr_drbg'',
         Ctr_Drbg_Seed pers (length pers)]
   (case mbedtls_ctr_drbg_seed lib pers of
      (ret, ctr_drbg) \<Rightarrow>
    if ret \<noteq> 0 then
      emit (Print ''Failed to seed random number generator: '' # displayRsaStatus lib ret)
           (halt Halt_Seed)
    else
    setup_parse lib b ctr_drbg public_key_buf private_key_buf encrypted decrypted)"

text \<open>
  Lines 60 to 85: the four arrays and \<^verbatim>\<open>// Load keys from SD card\<close>. The loads are opens
  number 0 and 1.
\<close>

definition setup_load :: "('pk, 'rng) mbedtls \<Rightarrow> board \<Rightarrow> run" where
  "setup_load lib b =
   (let public_key_buf = zeroed 2048;
        private_key_buf = zeroed 2048;
        encrypted = zeroed MAX_ENCRYPTED_LENGTH;
        decrypted = zeroed MAX_MESSAGE_LENGTH
    in
    case loadKeyFromSD b 0 PUBLIC_KEY_FILE public_key_buf (length public_key_buf) of
      (out1, public_key_buf', loaded1) \<Rightarrow>
    emit out1
   (if \<not> loaded1 then
      emit [Println ''Failed to load public key!''] (halt Halt_Load_Public)
    else
    case loadKeyFromSD b 1 PRIVATE_KEY_FILE private_key_buf (length private_key_buf) of
      (out2, private_key_buf', loaded2) \<Rightarrow>
    emit out2
   (if \<not> loaded2 then
      emit [Println ''Failed to load private key!''] (halt Halt_Load_Private)
    else
    setup_seed lib b public_key_buf' private_key_buf' encrypted decrypted)))"

text \<open>
  Lines 43 to 58: the serial console and the SD card. The name \<open>setup\<close> itself is reserved
  in Isabelle.
\<close>

definition setup_main :: "('pk, 'rng) mbedtls \<Rightarrow> board \<Rightarrow> run" where
  "setup_main lib b =
   (case Serial_ready_after b of
      None \<Rightarrow> ([Serial_Begin 115200], Waiting_Serial)
    | Some polls \<Rightarrow>
   emit (Serial_Begin 115200 # replicate polls (Delay 100) @
         [Delay 2000, Println (CHR 0x0A # ''Wio Terminal RSA Encryption Demo Starting...''),
          Sd_Begin])
   (if \<not> SD_begin b then
      emit [Println ''SD card initialization failed!''] (halt Halt_SD_Init)
    else
    emit [Println ''SD card initialized successfully.''] (setup_load lib b)))"

subsection \<open>Observations on traces\<close>

text \<open>The calls the spec lists as cryptographic operations: seeding, encrypting, decrypting.\<close>

fun cipher_call :: "event \<Rightarrow> bool" where
  "cipher_call (Pk_Encrypt input ilen output osize ret olen) = True"
| "cipher_call (Pk_Decrypt input ilen output osize ret olen) = True"
| "cipher_call _ = False"

fun crypto_call :: "event \<Rightarrow> bool" where
  "crypto_call (Ctr_Drbg_Seed custom len) = True"
| "crypto_call ev = cipher_call ev"

text \<open>
  \<open>output_smaller_than_capacity\<close>: an encrypt or decrypt call whose output array is
  strictly larger than what the call produced.
\<close>

fun output_smaller_than_capacity :: "event \<Rightarrow> bool" where
  "output_smaller_than_capacity (Pk_Encrypt input ilen output osize ret olen) =
     (ret = 0 \<longrightarrow> olen < length output)"
| "output_smaller_than_capacity (Pk_Decrypt input ilen output osize ret olen) =
     (ret = 0 \<longrightarrow> olen < length output)"
| "output_smaller_than_capacity _ = True"

text \<open>
  \<open>output_fits\<close>: an encrypt call whose 256-byte output array is at least as large as what
  the call produced, and a decrypt call whose 100-byte output array is strictly larger
  than what the call produced, unless the call produced exactly \<^verbatim>\<open>MAX_MESSAGE_LENGTH\<close>
  bytes, a case about which the predicate says nothing.
\<close>

fun output_fits :: "event \<Rightarrow> bool" where
  "output_fits (Pk_Encrypt input ilen output osize ret olen) =
     (length output = MAX_ENCRYPTED_LENGTH \<and> (ret = 0 \<longrightarrow> olen \<le> length output))"
| "output_fits (Pk_Decrypt input ilen output osize ret olen) =
     (length output = MAX_MESSAGE_LENGTH \<and>
      (ret = 0 \<and> olen \<noteq> MAX_MESSAGE_LENGTH \<longrightarrow> olen < length output))"
| "output_fits _ = True"

text \<open>
  What the library promises of its output maximum: a successful encrypt or decrypt call
  writes no more bytes than the maximum it was given (it fails with an error code
  otherwise). This is a hypothesis on the parameter \<open>lib\<close>.
\<close>

definition keeps_output_maximum :: "('pk, 'rng) mbedtls \<Rightarrow> bool" where
  "keeps_output_maximum lib \<longleftrightarrow>
     (\<forall>pk input osize rng out rng'.
        mbedtls_pk_encrypt lib pk input osize rng = (0, out, rng') \<longrightarrow> length out \<le> osize) \<and>
     (\<forall>sk input osize rng out rng'.
        mbedtls_pk_decrypt lib sk input osize rng = (0, out, rng') \<longrightarrow> length out \<le> osize)"

text \<open>
  The card holds \<open>pub\<close> and \<open>priv\<close> as the two key files during the whole run: the two
  loads (calls 0 and 1) and the two size queries (calls 2 and 3) see the same files.
\<close>

definition card_holds :: "board \<Rightarrow> bytes \<Rightarrow> bytes \<Rightarrow> bool" where
  "card_holds b pub priv \<longleftrightarrow>
     SD_open b 0 PUBLIC_KEY_FILE = Some pub \<and> SD_open b 1 PRIVATE_KEY_FILE = Some priv \<and>
     SD_open b 2 PUBLIC_KEY_FILE = Some pub \<and> SD_open b 3 PRIVATE_KEY_FILE = Some priv"

text \<open>
  What the spec assumes of the library for a valid 2048-bit key pair \<open>pk\<close>, \<open>sk\<close>: a message of
  at most 245 bytes (the limit of PKCS#1 v1.5 padding under a 256-byte modulus) is
  encrypted, whatever the state of the generator, to at most 256 bytes when the output
  maximum admits 256, and the private key decrypts that ciphertext to the message whenever
  the output maximum admits the message. This is a hypothesis on the parameter \<open>lib\<close>; it is
  not derived from the sketch.
\<close>

definition rsa2048_key_pair :: "('pk, 'rng) mbedtls \<Rightarrow> 'pk \<Rightarrow> 'pk \<Rightarrow> bool" where
  "rsa2048_key_pair lib pk sk \<longleftrightarrow>
     (\<forall>m osize rng. length m \<le> 245 \<and> 256 \<le> osize \<longrightarrow>
        (\<exists>c rng'. mbedtls_pk_encrypt lib pk m osize rng = (0, c, rng') \<and> length c \<le> 256 \<and>
           (\<forall>omax. length m \<le> omax \<longrightarrow>
              (\<exists>rng''. mbedtls_pk_decrypt lib sk c omax rng' = (0, m, rng'')))))"

subsection \<open>A small library and some cards, to run the sketch on\<close>

text \<open>
  \<open>toy_lib\<close> has the shape of the real library under a 2048-bit key: a ciphertext is 256
  bytes (the length of the message, the message, zero padding), messages are at most 245
  bytes, and both directions refuse an output maximum that is too small. The only keys it
  parses are the files \<open>''PUB''\<close> and \<open>''PRIV''\<close>.
\<close>

definition toy_encrypt :: "nat \<Rightarrow> bytes \<Rightarrow> nat \<Rightarrow> nat \<Rightarrow> int \<times> bytes \<times> nat" where
  "toy_encrypt pk input osize rng =
     (if osize < 256 then (- 17408, [], rng)
      else if 245 < length input then (- 16512, [], rng)
      else (0, char_of (length input) # input @ zeroed (255 - length input), Suc rng))"

definition toy_decrypt :: "nat \<Rightarrow> bytes \<Rightarrow> nat \<Rightarrow> nat \<Rightarrow> int \<times> bytes \<times> nat" where
  "toy_decrypt sk input osize rng =
     (case input of
        [] \<Rightarrow> (- 16512, [], rng)
      | c # cs \<Rightarrow>
          if length cs \<noteq> 255 then (- 16512, [], rng)
          else if osize < of_char c then (- 17408, [], rng)
          else (0, take (of_char c) cs, rng))"

definition toy_lib :: "(nat, nat) mbedtls" where
  "toy_lib =
     \<lparr>mbedtls_ctr_drbg_seed = (\<lambda>custom. (0, length custom)),
      mbedtls_pk_parse_public_key = (\<lambda>der. if der = ''PUB'' then (0, 1) else (- 15616, 0)),
      mbedtls_pk_parse_key = (\<lambda>der. if der = ''PRIV'' then (0, 2) else (- 15616, 0)),
      mbedtls_pk_encrypt = toy_encrypt,
      mbedtls_pk_decrypt = toy_decrypt,
      mbedtls_strerror = (\<lambda>ret buflen. take (buflen - 1) ''PK - Invalid key tag or value'')\<rparr>"

text \<open>A library that differs from \<open>toy_lib\<close> in decrypting to as many bytes as the output
  maximum allows.\<close>

definition full_output_lib :: "(nat, nat) mbedtls" where
  "full_output_lib =
     toy_lib\<lparr>mbedtls_pk_decrypt := (\<lambda>sk input osize rng. (0, replicate osize CHR ''A'', rng))\<rparr>"

text \<open>A card with the given key files (or without them) that answers every call alike.\<close>

definition files :: "bytes option \<Rightarrow> bytes option \<Rightarrow> string \<Rightarrow> bytes option" where
  "files pub priv name =
     (if name = PUBLIC_KEY_FILE then pub
      else if name = PRIVATE_KEY_FILE then priv
      else None)"

definition steady_board :: "bytes option \<Rightarrow> bytes option \<Rightarrow> board" where
  "steady_board pub priv =
     \<lparr>Serial_ready_after = Some 0, SD_begin = True,
      SD_open = (\<lambda>k. files pub priv), size_unopened = 0\<rparr>"

text \<open>A card that serves the two loads and fails every later open.\<close>

definition pulled_card_board :: board where
  "pulled_card_board =
     \<lparr>Serial_ready_after = Some 0, SD_begin = True,
      SD_open = (\<lambda>k. if k < 2 then files (Some ''PUB'') (Some ''PRIV'') else files None None),
      size_unopened = 0\<rparr>"

section \<open>Basic facts\<close>

lemma fst_emit [simp]: "fst (emit es r) = es @ fst r"
  by (simp add: emit_def)

lemma snd_emit [simp]: "snd (emit es r) = snd r"
  by (simp add: emit_def)

lemma fst_halt [simp]: "fst (halt s) = []"
  by (simp add: halt_def)

lemma snd_halt [simp]: "snd (halt s) = Halted s"
  by (simp add: halt_def)

lemma length_zeroed [simp]: "length (zeroed n) = n"
  by (simp add: zeroed_def)

lemma zeroed_eq_Nil [simp]: "zeroed n = [] \<longleftrightarrow> n = 0"
  by (simp add: zeroed_def)

lemma drop_zeroed [simp]: "drop k (zeroed n) = zeroed (n - k)"
  by (simp add: zeroed_def)

lemma readBytes_whole:
  "readBytes content buffer (length buffer) =
     (take (length buffer) content @ drop (length content) buffer,
      min (length content) (length buffer))"
  by (simp add: readBytes_def Let_def min_def)

lemma loadKeyFromSD_closed:
  "SD_open b k filename = None \<Longrightarrow>
   loadKeyFromSD b k filename buffer buffer_size =
     ([Sd_Open filename, Print ''Failed to open file: '', Println filename], buffer, False)"
  by (simp add: loadKeyFromSD_def)

lemma loadKeyFromSD_open:
  "SD_open b k filename = Some content \<Longrightarrow> length buffer = buffer_size \<Longrightarrow>
   loadKeyFromSD b k filename buffer buffer_size =
     ([Sd_Open filename, Print ''Loaded '', Print (dec (min (length content) buffer_size)),
       Print '' bytes from '', Println filename],
      take buffer_size content @ drop (length content) buffer,
      content \<noteq> [] \<and> 0 < buffer_size)"
  using readBytes_whole [of content buffer] by (auto simp add: loadKeyFromSD_def)

lemma file_size_open:
  "SD_open b k filename = Some content \<Longrightarrow> file_size b k filename = length content"
  by (simp add: file_size_def)

lemma file_size_closed:
  "SD_open b k filename = None \<Longrightarrow> file_size b k filename = size_unopened b"
  by (simp add: file_size_def)

lemma length_message: "length message = 40"
  by (simp add: message_def)

lemmas setup_blocks =
  setup_main_def setup_load_def setup_seed_def setup_parse_def setup_encrypt_def
  setup_decrypt_def displayRsaStatus_def Let_def case_prod_beta

lemmas toy_defs =
  toy_lib_def toy_encrypt_def toy_decrypt_def steady_board_def files_def
  PUBLIC_KEY_FILE_def PRIVATE_KEY_FILE_def

section \<open>Loading the keys\<close>

text \<open>
  C9. \<^verbatim>\<open>loadKeyFromSD\<close> returns true exactly when the file opens and at least one byte
  is read from it. A key file that is present but empty is therefore a load failure, and
  \<^verbatim>\<open>setup\<close> reports it and stops in the \<^verbatim>\<open>while (1);\<close> of that load.
\<close>

theorem loadKeyFromSD_true_iff_byte_read:
  "(snd (snd (loadKeyFromSD b k filename buffer buffer_size)) \<longleftrightarrow>
      (\<exists>content. SD_open b k filename = Some content \<and>
                 0 < snd (readBytes content buffer buffer_size)))
   \<and> (Serial_ready_after b = Some polls \<and> SD_begin b \<and>
        SD_open b 0 PUBLIC_KEY_FILE = Some [] \<longrightarrow>
        snd (setup_main lib b) = Halted Halt_Load_Public \<and>
        Println ''Failed to load public key!'' \<in> set (fst (setup_main lib b)))
   \<and> (Serial_ready_after b = Some polls \<and> SD_begin b \<and>
        SD_open b 0 PUBLIC_KEY_FILE = Some pub \<and> pub \<noteq> [] \<and>
        SD_open b 1 PRIVATE_KEY_FILE = Some [] \<longrightarrow>
        snd (setup_main lib b) = Halted Halt_Load_Private \<and>
        Println ''Failed to load private key!'' \<in> set (fst (setup_main lib b)))"
proof (intro conjI impI)
  show "snd (snd (loadKeyFromSD b k filename buffer buffer_size)) \<longleftrightarrow>
      (\<exists>content. SD_open b k filename = Some content \<and>
                 0 < snd (readBytes content buffer buffer_size))"
    by (cases "SD_open b k filename") (simp_all add: loadKeyFromSD_def case_prod_beta)
next
  assume "Serial_ready_after b = Some polls \<and> SD_begin b \<and>
    SD_open b 0 PUBLIC_KEY_FILE = Some []"
  then show "snd (setup_main lib b) = Halted Halt_Load_Public"
    and "Println ''Failed to load public key!'' \<in> set (fst (setup_main lib b))"
    by (simp_all add: setup_main_def setup_load_def Let_def loadKeyFromSD_open)
next
  assume "Serial_ready_after b = Some polls \<and> SD_begin b \<and>
    SD_open b 0 PUBLIC_KEY_FILE = Some pub \<and> pub \<noteq> [] \<and>
    SD_open b 1 PRIVATE_KEY_FILE = Some []"
  then show "snd (setup_main lib b) = Halted Halt_Load_Private"
    and "Println ''Failed to load private key!'' \<in> set (fst (setup_main lib b))"
    by (simp_all add: setup_main_def setup_load_def Let_def loadKeyFromSD_open)
qed

theorem loadKeyFromSD_true_iff_byte_read_witness:
  "SD_open (steady_board (Some []) (Some ''PRIV'')) 0 PUBLIC_KEY_FILE = Some []
   \<and> snd (setup_main toy_lib (steady_board (Some []) (Some ''PRIV''))) = Halted Halt_Load_Public
   \<and> SD_open (steady_board (Some ''PUB'') (Some [])) 1 PRIVATE_KEY_FILE = Some []
   \<and> snd (setup_main toy_lib (steady_board (Some ''PUB'') (Some []))) = Halted Halt_Load_Private"
  using loadKeyFromSD_true_iff_byte_read
          [of "steady_board (Some []) (Some ''PRIV'')" 0 PUBLIC_KEY_FILE "zeroed 2048" 2048
              0 toy_lib "''PUB''"]
        loadKeyFromSD_true_iff_byte_read
          [of "steady_board (Some ''PUB'') (Some [])" 0 PUBLIC_KEY_FILE "zeroed 2048" 2048
              0 toy_lib "''PUB''"]
  by (simp add: steady_board_def files_def PUBLIC_KEY_FILE_def PRIVATE_KEY_FILE_def)

text \<open>
  C10. A key file larger than the array it is loaded into is cut to the size of the array,
  and \<^verbatim>\<open>loadKeyFromSD\<close> still returns true. The length \<^verbatim>\<open>setup\<close> later passes to the
  parser is the size of the whole file, taken from a second open, and is larger than the
  array the parser is pointed at. This holds for the public key (parsed first) and for
  the private key (parsed once the public key has been accepted).
\<close>

theorem oversized_key_is_cut_but_parsed_with_file_size:
  "(SD_open b k filename = Some content \<and> length buffer = buffer_size \<and>
      0 < buffer_size \<and> buffer_size < length content \<longrightarrow>
      fst (snd (loadKeyFromSD b k filename buffer buffer_size)) = take buffer_size content \<and>
      snd (snd (loadKeyFromSD b k filename buffer buffer_size)))
   \<and> (Serial_ready_after b = Some polls \<and> SD_begin b \<and> card_holds b pub priv \<and>
        2048 < length pub \<and> priv \<noteq> [] \<and> fst (mbedtls_ctr_drbg_seed lib pers) = 0 \<longrightarrow>
        Pk_Parse_Public_Key (take 2048 pub) (length pub) \<in> set (fst (setup_main lib b)) \<and>
        length (take 2048 pub) < length pub)
   \<and> (Serial_ready_after b = Some polls \<and> SD_begin b \<and> card_holds b pub priv \<and>
        pub \<noteq> [] \<and> length pub \<le> 2048 \<and> 2048 < length priv \<and>
        fst (mbedtls_ctr_drbg_seed lib pers) = 0 \<and>
        fst (mbedtls_pk_parse_public_key lib pub) = 0 \<longrightarrow>
        Pk_Parse_Key (take 2048 priv) (length priv) \<in> set (fst (setup_main lib b)) \<and>
        length (take 2048 priv) < length priv)"
proof (intro conjI impI)
  assume "SD_open b k filename = Some content \<and> length buffer = buffer_size \<and>
      0 < buffer_size \<and> buffer_size < length content"
  then show "fst (snd (loadKeyFromSD b k filename buffer buffer_size)) =
      take buffer_size content"
    and "snd (snd (loadKeyFromSD b k filename buffer buffer_size))"
    by (auto simp add: loadKeyFromSD_open)
next
  assume a: "Serial_ready_after b = Some polls \<and> SD_begin b \<and> card_holds b pub priv \<and>
        2048 < length pub \<and> priv \<noteq> [] \<and> fst (mbedtls_ctr_drbg_seed lib pers) = 0"
  then have "pub \<noteq> []"
    by auto
  with a show "Pk_Parse_Public_Key (take 2048 pub) (length pub) \<in> set (fst (setup_main lib b))"
    by (simp add: setup_main_def setup_load_def setup_seed_def setup_parse_def Let_def
        case_prod_beta card_holds_def loadKeyFromSD_open file_size_open)
  from a show "length (take 2048 pub) < length pub"
    by simp
next
  assume a: "Serial_ready_after b = Some polls \<and> SD_begin b \<and> card_holds b pub priv \<and>
        pub \<noteq> [] \<and> length pub \<le> 2048 \<and> 2048 < length priv \<and>
        fst (mbedtls_ctr_drbg_seed lib pers) = 0 \<and>
        fst (mbedtls_pk_parse_public_key lib pub) = 0"
  then have "priv \<noteq> []"
    by auto
  with a show "Pk_Parse_Key (take 2048 priv) (length priv) \<in> set (fst (setup_main lib b))"
    by (simp add: setup_main_def setup_load_def setup_seed_def setup_parse_def Let_def
        case_prod_beta card_holds_def loadKeyFromSD_open file_size_open)
  from a show "length (take 2048 priv) < length priv"
    by simp
qed

theorem oversized_key_is_cut_but_parsed_with_file_size_witness:
  "card_holds (steady_board (Some (replicate 2049 CHR ''A'')) (Some ''PRIV''))
      (replicate 2049 CHR ''A'') ''PRIV''
   \<and> fst (snd (loadKeyFromSD (steady_board (Some (replicate 2049 CHR ''A'')) (Some ''PRIV''))
             0 PUBLIC_KEY_FILE (zeroed 2048) 2048)) = replicate 2048 CHR ''A''
   \<and> Pk_Parse_Public_Key (replicate 2048 CHR ''A'') 2049
        \<in> set (fst (setup_main toy_lib
                      (steady_board (Some (replicate 2049 CHR ''A'')) (Some ''PRIV''))))
   \<and> card_holds (steady_board (Some ''PUB'') (Some (replicate 2049 CHR ''B'')))
      ''PUB'' (replicate 2049 CHR ''B'')
   \<and> Pk_Parse_Key (replicate 2048 CHR ''B'') 2049
        \<in> set (fst (setup_main toy_lib
                      (steady_board (Some ''PUB'') (Some (replicate 2049 CHR ''B'')))))"
  using oversized_key_is_cut_but_parsed_with_file_size
          [of "steady_board (Some (replicate 2049 CHR ''A'')) (Some ''PRIV'')"
              0 PUBLIC_KEY_FILE "replicate 2049 CHR ''A''" "zeroed 2048" 2048 0
              "replicate 2049 CHR ''A''" "''PRIV''" toy_lib]
        oversized_key_is_cut_but_parsed_with_file_size
          [of "steady_board (Some ''PUB'') (Some (replicate 2049 CHR ''B''))"
              1 PRIVATE_KEY_FILE "replicate 2049 CHR ''B''" "zeroed 2048" 2048 0
              "''PUB''" "replicate 2049 CHR ''B''" toy_lib]
  by (simp add: toy_lib_def steady_board_def files_def PUBLIC_KEY_FILE_def
      PRIVATE_KEY_FILE_def card_holds_def)

section \<open>Key failures and the cryptographic calls\<close>

text \<open>
  C3, as stated, fails for a key file whose contents do not parse: the card below holds a
  public key file that \<open>toy_lib\<close> rejects, the run stops at the public key's parse check,
  and the generator has been seeded before.
\<close>

theorem unparsable_key_halts_after_seed:
  "fst (mbedtls_pk_parse_public_key toy_lib ''XXX'') \<noteq> 0
   \<and> snd (setup_main toy_lib (steady_board (Some ''XXX'') (Some ''PRIV'')))
       = Halted Halt_Parse_Public
   \<and> list_ex crypto_call (fst (setup_main toy_lib (steady_board (Some ''XXX'') (Some ''PRIV''))))"
  by (simp add: setup_blocks toy_defs loadKeyFromSD_open file_size_open pers_def)

text \<open>
  C3, amended. With the console and the card ready: when a key file cannot be opened, the
  run stops in the \<^verbatim>\<open>while (1);\<close> of that load and no seed, encrypt or decrypt call has been
  made. When the contents of a key file (a file that fits the 2048-byte array) fail to
  parse, the run stops in the \<^verbatim>\<open>while (1);\<close> of that parse and no encrypt or decrypt call
  has been made; the seed call has been made, before the parse.
\<close>

theorem key_failure_halts_before_encrypt:
  assumes "Serial_ready_after b = Some polls" and "SD_begin b"
  shows
  "(SD_open b 0 PUBLIC_KEY_FILE = None \<longrightarrow>
      snd (setup_main lib b) = Halted Halt_Load_Public \<and>
      (\<forall>ev \<in> set (fst (setup_main lib b)). \<not> crypto_call ev))
   \<and> (SD_open b 0 PUBLIC_KEY_FILE = Some pub \<and> pub \<noteq> [] \<and>
        SD_open b 1 PRIVATE_KEY_FILE = None \<longrightarrow>
      snd (setup_main lib b) = Halted Halt_Load_Private \<and>
      (\<forall>ev \<in> set (fst (setup_main lib b)). \<not> crypto_call ev))
   \<and> (card_holds b pub priv \<and> pub \<noteq> [] \<and> priv \<noteq> [] \<and> length pub \<le> 2048 \<and>
        fst (mbedtls_ctr_drbg_seed lib pers) = 0 \<and>
        fst (mbedtls_pk_parse_public_key lib pub) \<noteq> 0 \<longrightarrow>
      snd (setup_main lib b) = Halted Halt_Parse_Public \<and>
      (\<forall>ev \<in> set (fst (setup_main lib b)). \<not> cipher_call ev) \<and>
      Ctr_Drbg_Seed pers (length pers) \<in> set (fst (setup_main lib b)))
   \<and> (card_holds b pub priv \<and> pub \<noteq> [] \<and> priv \<noteq> [] \<and> length pub \<le> 2048 \<and>
        length priv \<le> 2048 \<and>
        fst (mbedtls_ctr_drbg_seed lib pers) = 0 \<and>
        fst (mbedtls_pk_parse_public_key lib pub) = 0 \<and>
        fst (mbedtls_pk_parse_key lib priv) \<noteq> 0 \<longrightarrow>
      snd (setup_main lib b) = Halted Halt_Parse_Private \<and>
      (\<forall>ev \<in> set (fst (setup_main lib b)). \<not> cipher_call ev) \<and>
      Ctr_Drbg_Seed pers (length pers) \<in> set (fst (setup_main lib b)))"
proof (intro conjI impI)
  assume "SD_open b 0 PUBLIC_KEY_FILE = None"
  with assms show "snd (setup_main lib b) = Halted Halt_Load_Public"
    and "\<forall>ev \<in> set (fst (setup_main lib b)). \<not> crypto_call ev"
    by (auto simp add: setup_main_def setup_load_def Let_def loadKeyFromSD_closed)
next
  assume "SD_open b 0 PUBLIC_KEY_FILE = Some pub \<and> pub \<noteq> [] \<and>
        SD_open b 1 PRIVATE_KEY_FILE = None"
  with assms show "snd (setup_main lib b) = Halted Halt_Load_Private"
    and "\<forall>ev \<in> set (fst (setup_main lib b)). \<not> crypto_call ev"
    by (auto simp add: setup_main_def setup_load_def Let_def loadKeyFromSD_closed
        loadKeyFromSD_open)
next
  assume "card_holds b pub priv \<and> pub \<noteq> [] \<and> priv \<noteq> [] \<and> length pub \<le> 2048 \<and>
        fst (mbedtls_ctr_drbg_seed lib pers) = 0 \<and>
        fst (mbedtls_pk_parse_public_key lib pub) \<noteq> 0"
  with assms show "snd (setup_main lib b) = Halted Halt_Parse_Public"
    and "\<forall>ev \<in> set (fst (setup_main lib b)). \<not> cipher_call ev"
    and "Ctr_Drbg_Seed pers (length pers) \<in> set (fst (setup_main lib b))"
    by (auto simp add: setup_main_def setup_load_def setup_seed_def setup_parse_def
        displayRsaStatus_def Let_def case_prod_beta card_holds_def loadKeyFromSD_open
        file_size_open)
next
  assume "card_holds b pub priv \<and> pub \<noteq> [] \<and> priv \<noteq> [] \<and> length pub \<le> 2048 \<and>
        length priv \<le> 2048 \<and>
        fst (mbedtls_ctr_drbg_seed lib pers) = 0 \<and>
        fst (mbedtls_pk_parse_public_key lib pub) = 0 \<and>
        fst (mbedtls_pk_parse_key lib priv) \<noteq> 0"
  with assms show "snd (setup_main lib b) = Halted Halt_Parse_Private"
    and "\<forall>ev \<in> set (fst (setup_main lib b)). \<not> cipher_call ev"
    and "Ctr_Drbg_Seed pers (length pers) \<in> set (fst (setup_main lib b))"
    by (auto simp add: setup_main_def setup_load_def setup_seed_def setup_parse_def
        displayRsaStatus_def Let_def case_prod_beta card_holds_def loadKeyFromSD_open
        file_size_open)
qed

theorem key_failure_halts_before_encrypt_witness:
  "SD_open (steady_board None (Some ''PRIV'')) 0 PUBLIC_KEY_FILE = None
   \<and> snd (setup_main toy_lib (steady_board None (Some ''PRIV''))) = Halted Halt_Load_Public
   \<and> SD_open (steady_board (Some ''PUB'') None) 1 PRIVATE_KEY_FILE = None
   \<and> snd (setup_main toy_lib (steady_board (Some ''PUB'') None)) = Halted Halt_Load_Private
   \<and> card_holds (steady_board (Some ''XXX'') (Some ''PRIV'')) ''XXX'' ''PRIV''
   \<and> fst (mbedtls_pk_parse_public_key toy_lib ''XXX'') \<noteq> 0
   \<and> snd (setup_main toy_lib (steady_board (Some ''XXX'') (Some ''PRIV'')))
       = Halted Halt_Parse_Public
   \<and> \<not> list_ex cipher_call
         (fst (setup_main toy_lib (steady_board (Some ''XXX'') (Some ''PRIV''))))
   \<and> card_holds (steady_board (Some ''PUB'') (Some ''YYY'')) ''PUB'' ''YYY''
   \<and> fst (mbedtls_pk_parse_key toy_lib ''YYY'') \<noteq> 0
   \<and> snd (setup_main toy_lib (steady_board (Some ''PUB'') (Some ''YYY'')))
       = Halted Halt_Parse_Private"
  using key_failure_halts_before_encrypt
          [where b = "steady_board None (Some ''PRIV'')" and polls = 0 and lib = toy_lib]
        key_failure_halts_before_encrypt
          [where b = "steady_board (Some ''PUB'') None" and polls = 0 and lib = toy_lib
              and pub = "''PUB''"]
        key_failure_halts_before_encrypt
          [where b = "steady_board (Some ''XXX'') (Some ''PRIV'')" and polls = 0
              and lib = toy_lib and pub = "''XXX''" and priv = "''PRIV''"]
        key_failure_halts_before_encrypt
          [where b = "steady_board (Some ''PUB'') (Some ''YYY'')" and polls = 0
              and lib = toy_lib and pub = "''PUB''" and priv = "''YYY''"]
  by (simp add: toy_lib_def steady_board_def files_def PUBLIC_KEY_FILE_def
      PRIVATE_KEY_FILE_def card_holds_def list_ex_iff)

section \<open>The key buffers\<close>

text \<open>Only the parse block mentions the key buffers, and it passes them on as it got them.\<close>

lemma decrypt_no_parse:
  "Pk_Parse_Public_Key buf len \<notin> set (fst (setup_decrypt lib sk rng ebuf n dbuf))"
  "Pk_Parse_Key buf len \<notin> set (fst (setup_decrypt lib sk rng ebuf n dbuf))"
  by (auto simp add: setup_decrypt_def displayRsaStatus_def Let_def
      split: prod.splits option.splits)

lemma encrypt_no_parse:
  "Pk_Parse_Public_Key buf len \<notin> set (fst (setup_encrypt lib pk sk rng ebuf dbuf))"
  "Pk_Parse_Key buf len \<notin> set (fst (setup_encrypt lib pk sk rng ebuf dbuf))"
  by (auto simp add: setup_encrypt_def displayRsaStatus_def Let_def decrypt_no_parse
      split: prod.splits option.splits)

lemma parse_passes_buffers:
  "Pk_Parse_Public_Key buf len \<in> set (fst (setup_parse lib b rng pbuf sbuf ebuf dbuf))
     \<Longrightarrow> buf = pbuf"
  "Pk_Parse_Key buf len \<in> set (fst (setup_parse lib b rng pbuf sbuf ebuf dbuf))
     \<Longrightarrow> buf = sbuf"
  by (auto simp add: setup_parse_def displayRsaStatus_def Let_def encrypt_no_parse
      split: prod.splits option.splits if_splits)

lemma seed_passes_buffers:
  "Pk_Parse_Public_Key buf len \<in> set (fst (setup_seed lib b pbuf sbuf ebuf dbuf))
     \<Longrightarrow> buf = pbuf"
  "Pk_Parse_Key buf len \<in> set (fst (setup_seed lib b pbuf sbuf ebuf dbuf))
     \<Longrightarrow> buf = sbuf"
  by (auto simp add: setup_seed_def displayRsaStatus_def dest: parse_passes_buffers
      split: prod.splits if_splits)

lemma load_fills_public:
  assumes "Pk_Parse_Public_Key buf len \<in> set (fst (setup_load lib b))"
  shows "\<exists>content. SD_open b 0 PUBLIC_KEY_FILE = Some content \<and>
           buf = take 2048 content @ zeroed (2048 - length content)"
proof (cases "SD_open b 0 PUBLIC_KEY_FILE")
  case None
  with assms show ?thesis
    by (simp add: setup_load_def Let_def loadKeyFromSD_closed)
next
  case pub: (Some content)
  show ?thesis
  proof (cases "SD_open b 1 PRIVATE_KEY_FILE")
    case None
    with assms pub show ?thesis
      by (auto simp add: setup_load_def Let_def loadKeyFromSD_closed loadKeyFromSD_open
          split: if_splits)
  next
    case (Some content')
    with assms pub show ?thesis
      by (auto simp add: setup_load_def Let_def loadKeyFromSD_open
          dest!: seed_passes_buffers split: if_splits)
  qed
qed

lemma load_fills_private:
  assumes "Pk_Parse_Key buf len \<in> set (fst (setup_load lib b))"
  shows "\<exists>content. SD_open b 1 PRIVATE_KEY_FILE = Some content \<and>
           buf = take 2048 content @ zeroed (2048 - length content)"
proof (cases "SD_open b 0 PUBLIC_KEY_FILE")
  case None
  with assms show ?thesis
    by (simp add: setup_load_def Let_def loadKeyFromSD_closed)
next
  case pub: (Some content)
  show ?thesis
  proof (cases "SD_open b 1 PRIVATE_KEY_FILE")
    case None
    with assms pub show ?thesis
      by (auto simp add: setup_load_def Let_def loadKeyFromSD_closed loadKeyFromSD_open
          split: if_splits)
  next
    case (Some content')
    with assms pub show ?thesis
      by (auto simp add: setup_load_def Let_def loadKeyFromSD_open
          dest!: seed_passes_buffers split: if_splits)
  qed
qed

lemma main_events:
  "ev \<in> set (fst (setup_main lib b)) \<Longrightarrow>
     ev \<in> set (fst (setup_load lib b)) \<or>
     (case ev of Pk_Parse_Public_Key buf len \<Rightarrow> False | Pk_Parse_Key buf len \<Rightarrow> False
      | Pk_Encrypt input ilen output osize ret olen \<Rightarrow> False
      | Pk_Decrypt input ilen output osize ret olen \<Rightarrow> False
      | _ \<Rightarrow> True)"
  by (auto simp add: setup_main_def split: option.splits if_splits)

text \<open>
  C6. Each key buffer is written once, by \<^verbatim>\<open>loadKeyFromSD\<close>, and reaches the library as
  that call left it: whenever \<^verbatim>\<open>setup\<close> passes the public key buffer to the parser, the
  buffer is the result of loading the public key file into the zeroed 2048-byte array,
  that is the bytes read from the file followed by the zeros the load did not touch. The
  same holds for the private key buffer. No other call takes a key buffer.
\<close>

theorem key_buffer_at_parse_is_loaded_file:
  "(Pk_Parse_Public_Key buf len \<in> set (fst (setup_main lib b)) \<longrightarrow>
      (\<exists>content. SD_open b 0 PUBLIC_KEY_FILE = Some content \<and>
         buf = fst (snd (loadKeyFromSD b 0 PUBLIC_KEY_FILE (zeroed 2048) 2048)) \<and>
         buf = take 2048 content @ zeroed (2048 - length content)))
   \<and> (Pk_Parse_Key buf len \<in> set (fst (setup_main lib b)) \<longrightarrow>
      (\<exists>content. SD_open b 1 PRIVATE_KEY_FILE = Some content \<and>
         buf = fst (snd (loadKeyFromSD b 1 PRIVATE_KEY_FILE (zeroed 2048) 2048)) \<and>
         buf = take 2048 content @ zeroed (2048 - length content)))"
proof (intro conjI impI)
  assume "Pk_Parse_Public_Key buf len \<in> set (fst (setup_main lib b))"
  then have "Pk_Parse_Public_Key buf len \<in> set (fst (setup_load lib b))"
    by (auto dest: main_events)
  then obtain content where "SD_open b 0 PUBLIC_KEY_FILE = Some content"
    and "buf = take 2048 content @ zeroed (2048 - length content)"
    using load_fills_public by blast
  then show "\<exists>content. SD_open b 0 PUBLIC_KEY_FILE = Some content \<and>
         buf = fst (snd (loadKeyFromSD b 0 PUBLIC_KEY_FILE (zeroed 2048) 2048)) \<and>
         buf = take 2048 content @ zeroed (2048 - length content)"
    by (simp add: loadKeyFromSD_open)
next
  assume "Pk_Parse_Key buf len \<in> set (fst (setup_main lib b))"
  then have "Pk_Parse_Key buf len \<in> set (fst (setup_load lib b))"
    by (auto dest: main_events)
  then obtain content where "SD_open b 1 PRIVATE_KEY_FILE = Some content"
    and "buf = take 2048 content @ zeroed (2048 - length content)"
    using load_fills_private by blast
  then show "\<exists>content. SD_open b 1 PRIVATE_KEY_FILE = Some content \<and>
         buf = fst (snd (loadKeyFromSD b 1 PRIVATE_KEY_FILE (zeroed 2048) 2048)) \<and>
         buf = take 2048 content @ zeroed (2048 - length content)"
    by (simp add: loadKeyFromSD_open)
qed

theorem key_buffer_at_parse_is_loaded_file_witness:
  "Pk_Parse_Public_Key (''PUB'' @ zeroed 2045) 3
     \<in> set (fst (setup_main toy_lib (steady_board (Some ''PUB'') (Some ''PRIV''))))
   \<and> Pk_Parse_Key (''PRIV'' @ zeroed 2044) 4
     \<in> set (fst (setup_main toy_lib (steady_board (Some ''PUB'') (Some ''PRIV''))))
   \<and> fst (snd (loadKeyFromSD (steady_board (Some ''PUB'') (Some ''PRIV'')) 0 PUBLIC_KEY_FILE
        (zeroed 2048) 2048)) = ''PUB'' @ zeroed 2045
   \<and> fst (snd (loadKeyFromSD (steady_board (Some ''PUB'') (Some ''PRIV'')) 1 PRIVATE_KEY_FILE
        (zeroed 2048) 2048)) = ''PRIV'' @ zeroed 2044"
proof -
  let ?b = "steady_board (Some ''PUB'') (Some ''PRIV'')"
  have pub: "Pk_Parse_Public_Key (''PUB'' @ zeroed 2045) 3 \<in> set (fst (setup_main toy_lib ?b))"
    by (simp add: setup_main_def setup_load_def setup_seed_def setup_parse_def Let_def
        case_prod_beta toy_lib_def steady_board_def files_def PUBLIC_KEY_FILE_def
        PRIVATE_KEY_FILE_def loadKeyFromSD_open file_size_open)
  have priv: "Pk_Parse_Key (''PRIV'' @ zeroed 2044) 4 \<in> set (fst (setup_main toy_lib ?b))"
    by (simp add: setup_main_def setup_load_def setup_seed_def setup_parse_def Let_def
        case_prod_beta toy_lib_def steady_board_def files_def PUBLIC_KEY_FILE_def
        PRIVATE_KEY_FILE_def loadKeyFromSD_open file_size_open)
  from pub
    key_buffer_at_parse_is_loaded_file
      [where buf = "''PUB'' @ zeroed 2045" and len = 3 and lib = toy_lib and b = ?b]
  have "''PUB'' @ zeroed 2045 =
      fst (snd (loadKeyFromSD ?b 0 PUBLIC_KEY_FILE (zeroed 2048) 2048))"
    by blast
  moreover from priv
    key_buffer_at_parse_is_loaded_file
      [where buf = "''PRIV'' @ zeroed 2044" and len = 4 and lib = toy_lib and b = ?b]
  have "''PRIV'' @ zeroed 2044 =
      fst (snd (loadKeyFromSD ?b 1 PRIVATE_KEY_FILE (zeroed 2048) 2048))"
    by blast
  ultimately show ?thesis
    using pub priv by simp
qed

section \<open>Output buffers\<close>

text \<open>
  C7, as stated (every output array is strictly larger than what the library produces),
  fails for the ciphertext: under \<open>toy_lib\<close>, as under a 2048-bit RSA key, the ciphertext is
  256 bytes and the \<^verbatim>\<open>encrypted\<close> array is 256 bytes.
\<close>

theorem ciphertext_fills_encrypted_buffer:
  "\<not> list_all output_smaller_than_capacity
        (fst (setup_main toy_lib (steady_board (Some ''PUB'') (Some ''PRIV''))))"
  by (simp add: setup_main_def setup_load_def setup_seed_def setup_parse_def
      setup_encrypt_def Let_def case_prod_beta toy_defs loadKeyFromSD_open file_size_open
      message_def MAX_ENCRYPTED_LENGTH_def)

lemma encrypt_keeps_maximum:
  "keeps_output_maximum lib \<Longrightarrow>
   mbedtls_pk_encrypt lib pk input osize rng = (0, out, rng') \<Longrightarrow> length out \<le> osize"
  unfolding keeps_output_maximum_def by blast

lemma decrypt_keeps_maximum:
  "keeps_output_maximum lib \<Longrightarrow>
   mbedtls_pk_decrypt lib sk input osize rng = (0, out, rng') \<Longrightarrow> length out \<le> osize"
  unfolding keeps_output_maximum_def by blast

lemma decrypt_output_fits:
  assumes "ev \<in> set (fst (setup_decrypt lib sk rng ebuf n dbuf))"
    and "keeps_output_maximum lib" and "length dbuf = MAX_MESSAGE_LENGTH"
  shows "output_fits ev"
proof (cases "mbedtls_pk_decrypt lib sk (take n ebuf) MAX_MESSAGE_LENGTH rng")
  case (fields ret out rng')
  show ?thesis
  proof (cases "ret = 0")
    case True
    with fields assms(2) have "length out \<le> MAX_MESSAGE_LENGTH"
      by (auto dest: decrypt_keeps_maximum)
    with assms(1,3) fields True show ?thesis
      by (auto simp add: setup_decrypt_def Let_def split: option.splits if_splits)
  next
    case False
    with assms(1,3) fields show ?thesis
      by (auto simp add: setup_decrypt_def displayRsaStatus_def)
  qed
qed

lemma encrypt_output_fits:
  assumes "ev \<in> set (fst (setup_encrypt lib pk sk rng ebuf dbuf))"
    and "keeps_output_maximum lib"
    and "length ebuf = MAX_ENCRYPTED_LENGTH" and "length dbuf = MAX_MESSAGE_LENGTH"
  shows "output_fits ev"
proof (cases "mbedtls_pk_encrypt lib pk message MAX_ENCRYPTED_LENGTH rng")
  case (fields ret out rng')
  show ?thesis
  proof (cases "ret = 0")
    case True
    with fields assms(2) have "length out \<le> MAX_ENCRYPTED_LENGTH"
      by (auto dest: encrypt_keeps_maximum)
    with assms fields True show ?thesis
      by (auto simp add: setup_encrypt_def Let_def write_output_def
          dest: decrypt_output_fits)
  next
    case False
    with assms(1,3) fields show ?thesis
      by (auto simp add: setup_encrypt_def displayRsaStatus_def)
  qed
qed

lemma parse_output_fits:
  "ev \<in> set (fst (setup_parse lib b rng pbuf sbuf ebuf dbuf)) \<Longrightarrow>
   keeps_output_maximum lib \<Longrightarrow>
   length ebuf = MAX_ENCRYPTED_LENGTH \<Longrightarrow> length dbuf = MAX_MESSAGE_LENGTH \<Longrightarrow>
   output_fits ev"
  by (auto simp add: setup_parse_def displayRsaStatus_def Let_def
      dest: encrypt_output_fits split: prod.splits if_splits)

lemma seed_output_fits:
  "ev \<in> set (fst (setup_seed lib b pbuf sbuf ebuf dbuf)) \<Longrightarrow>
   keeps_output_maximum lib \<Longrightarrow>
   length ebuf = MAX_ENCRYPTED_LENGTH \<Longrightarrow> length dbuf = MAX_MESSAGE_LENGTH \<Longrightarrow>
   output_fits ev"
  by (auto simp add: setup_seed_def displayRsaStatus_def
      dest: parse_output_fits split: prod.splits if_splits)

lemma load_output_fits:
  "ev \<in> set (fst (setup_load lib b)) \<Longrightarrow> keeps_output_maximum lib \<Longrightarrow> output_fits ev"
  by (auto simp add: setup_load_def Let_def loadKeyFromSD_def
      dest: seed_output_fits split: prod.splits option.splits if_splits)

lemma main_cipher_events:
  "ev \<in> set (fst (setup_main lib b)) \<Longrightarrow> cipher_call ev \<Longrightarrow>
     ev \<in> set (fst (setup_load lib b))"
  by (auto simp add: setup_main_def split: option.splits if_splits)

lemma other_events_fit: "\<not> cipher_call ev \<Longrightarrow> output_fits ev"
  by (cases ev) simp_all

text \<open>\<open>toy_lib\<close> keeps to the output maximum it is given.\<close>

lemma toy_lib_keeps_output_maximum: "keeps_output_maximum toy_lib"
  by (auto simp add: keeps_output_maximum_def toy_lib_def toy_encrypt_def toy_decrypt_def
      split: if_splits list.splits)

text \<open>
  C7, amended. Let the library keep to the output maximum it is given. The encrypt call
  is always made with the 256-byte \<^verbatim>\<open>encrypted\<close> array as output, and what a successful call
  produced is at most as long as that array: at least as large, not strictly larger, since
  a 256-byte ciphertext fills the array. The decrypt call is always made with the 100-byte
  \<^verbatim>\<open>decrypted\<close> array as output, and the array is strictly larger than what a successful
  call produced whenever the call produced fewer bytes than the output maximum of 100.
  Nothing is said of a plaintext of exactly 100 bytes.
\<close>

theorem output_buffers_hold_the_output:
  assumes "keeps_output_maximum lib"
  shows "\<forall>ev \<in> set (fst (setup_main lib b)). output_fits ev"
proof
  fix ev
  assume ev: "ev \<in> set (fst (setup_main lib b))"
  show "output_fits ev"
  proof (cases "cipher_call ev")
    case True
    with ev have "ev \<in> set (fst (setup_load lib b))"
      by (rule main_cipher_events)
    then show ?thesis
      using assms by (rule load_output_fits)
  next
    case False
    then show ?thesis
      by (rule other_events_fit)
  qed
qed

theorem output_buffers_hold_the_output_witness:
  "keeps_output_maximum toy_lib
   \<and> Pk_Encrypt message 40 (zeroed 256) 256 0 256
     \<in> set (fst (setup_main toy_lib (steady_board (Some ''PUB'') (Some ''PRIV''))))
   \<and> output_fits (Pk_Encrypt message 40 (zeroed 256) 256 0 256)
   \<and> Pk_Decrypt (char_of (40::nat) # message @ zeroed 215) 256 (zeroed 100) 100 0 40
     \<in> set (fst (setup_main toy_lib (steady_board (Some ''PUB'') (Some ''PRIV''))))
   \<and> output_fits
       (Pk_Decrypt (char_of (40::nat) # message @ zeroed 215) 256 (zeroed 100) 100 0 40)
   \<and> (40 :: nat) < length (zeroed 100)"
proof -
  let ?b = "steady_board (Some ''PUB'') (Some ''PRIV'')"
  have enc: "Pk_Encrypt message 40 (zeroed 256) 256 0 256 \<in> set (fst (setup_main toy_lib ?b))"
    by (simp add: setup_main_def setup_load_def setup_seed_def setup_parse_def
        setup_encrypt_def Let_def case_prod_beta toy_defs loadKeyFromSD_open file_size_open
        length_message MAX_ENCRYPTED_LENGTH_def)
  have dec: "Pk_Decrypt (char_of (40::nat) # message @ zeroed 215) 256 (zeroed 100) 100 0 40
      \<in> set (fst (setup_main toy_lib ?b))"
    by (simp add: setup_blocks toy_defs loadKeyFromSD_open file_size_open write_output_def
        length_message MAX_ENCRYPTED_LENGTH_def MAX_MESSAGE_LENGTH_def zeroed_def)
  from enc dec toy_lib_keeps_output_maximum
    output_buffers_hold_the_output [OF toy_lib_keeps_output_maximum, of ?b]
  show ?thesis
    by auto
qed

section \<open>Failures that are checked\<close>

text \<open>
  Each return value that \<^verbatim>\<open>setup\<close> tests leads, when it signals a failure, to a report on
  the console and to the \<^verbatim>\<open>while (1);\<close> behind it; for a library call the report ends
  with the text \<^verbatim>\<open>mbedtls_strerror\<close> gives for the code. Nothing is printed or called
  after the report. (The load and parse checks are covered in the sections above.)
\<close>

lemma sd_begin_failure_is_fatal:
  assumes "Serial_ready_after b = Some polls" and "\<not> SD_begin b"
  shows "snd (setup_main lib b) = Halted Halt_SD_Init"
    and "suffix [Sd_Begin, Println ''SD card initialization failed!''] (fst (setup_main lib b))"
  using assms by (simp_all add: setup_main_def suffix_ConsI suffix_appendI)

lemma seed_failure_is_fatal:
  assumes "fst (mbedtls_ctr_drbg_seed lib pers) \<noteq> 0"
  shows "snd (setup_seed lib b pbuf sbuf ebuf dbuf) = Halted Halt_Seed"
    and "suffix [Ctr_Drbg_Seed pers (length pers),
                 Print ''Failed to seed random number generator: '',
                 Println (mbedtls_strerror lib (fst (mbedtls_ctr_drbg_seed lib pers)) 100)]
           (fst (setup_seed lib b pbuf sbuf ebuf dbuf))"
  using assms
  by (simp_all add: setup_seed_def displayRsaStatus_def case_prod_beta suffix_ConsI)

lemma encrypt_failure_is_fatal:
  assumes "mbedtls_pk_encrypt lib pk message MAX_ENCRYPTED_LENGTH rng = (ret, out, rng')"
    and "ret \<noteq> 0"
  shows "snd (setup_encrypt lib pk sk rng ebuf dbuf) = Halted Halt_Encrypt"
    and "suffix [Pk_Encrypt message (length message) ebuf MAX_ENCRYPTED_LENGTH ret (length out),
                 Print ''Encryption failed: '', Println (mbedtls_strerror lib ret 100)]
           (fst (setup_encrypt lib pk sk rng ebuf dbuf))"
  using assms
  by (simp_all add: setup_encrypt_def displayRsaStatus_def suffix_ConsI)

lemma decrypt_failure_is_fatal:
  assumes "mbedtls_pk_decrypt lib sk (take n ebuf) MAX_MESSAGE_LENGTH rng = (ret, out, rng')"
    and "ret \<noteq> 0"
  shows "setup_decrypt lib sk rng ebuf n dbuf =
    ([Println ''Decrypting...'',
      Pk_Decrypt ebuf n dbuf MAX_MESSAGE_LENGTH ret (length out),
      Print ''Decryption failed: '', Println (mbedtls_strerror lib ret 100)],
     Halted Halt_Decrypt)"
  using assms
  by (simp add: setup_decrypt_def displayRsaStatus_def emit_def halt_def)

section \<open>The terminating NUL\<close>

text \<open>
  After a successful decrypt call that kept to its output maximum, the store of the NUL
  is outside the \<^verbatim>\<open>decrypted\<close> array exactly when the call produced the full maximum.
\<close>

lemma nul_store_out_of_bounds_iff:
  assumes "mbedtls_pk_decrypt lib sk (take n ebuf) MAX_MESSAGE_LENGTH rng = (0, out, rng')"
    and "length dbuf = MAX_MESSAGE_LENGTH" and "length out \<le> MAX_MESSAGE_LENGTH"
  shows "snd (setup_decrypt lib sk rng ebuf n dbuf) = Out_Of_Bounds Nul_Store
           \<longleftrightarrow> length out = MAX_MESSAGE_LENGTH"
  using assms by (auto simp add: setup_decrypt_def write_output_def Let_def)

text \<open>
  C8. The decrypt call is told that it may produce \<^verbatim>\<open>MAX_MESSAGE_LENGTH\<close> = 100 bytes, and
  the \<^verbatim>\<open>decrypted\<close> array has 100 elements. When the call succeeds with exactly 100 bytes,
  the store \<^verbatim>\<open>decrypted[decrypted_length] = '\0'\<close> goes to index 100, one past the last
  element. The run below is such a run: the library decrypts to as many bytes as the
  output maximum admits.
\<close>

theorem nul_store_past_decrypted_buffer:
  "mbedtls_pk_decrypt full_output_lib 2 [] MAX_MESSAGE_LENGTH 0 = (0, replicate 100 CHR ''A'', 0)
   \<and> length (zeroed MAX_MESSAGE_LENGTH) = 100
   \<and> snd (setup_main full_output_lib (steady_board (Some ''PUB'') (Some ''PRIV'')))
       = Out_Of_Bounds Nul_Store"
  by (simp add: setup_blocks toy_defs full_output_lib_def loadKeyFromSD_open file_size_open
      write_output_def message_def MAX_ENCRYPTED_LENGTH_def MAX_MESSAGE_LENGTH_def)

section \<open>Failures that are not checked\<close>

lemma dec_0: "dec 0 = ''0''"
  by code_simp

lemma dec_one_digit: "n < 10 \<Longrightarrow> dec n = [digit n]"
  by (simp add: dec.simps)

text \<open>
  C4. The two opens that ask for the file sizes (lines 105 to 111) are not tested. On a
  card that serves the two loads and then fails every open, the run prints no report
  of the failed opens, takes \<^verbatim>\<open>size()\<close> of the unopened files, prints the two sizes and
  calls the parser; what it finally reports is a parse failure. The events listed are
  those after the seed call, the first 21 events being those up to it.
\<close>

theorem failed_size_open_is_not_reported:
  "SD_open pulled_card_board 2 PUBLIC_KEY_FILE = None
   \<and> SD_open pulled_card_board 3 PRIVATE_KEY_FILE = None
   \<and> drop 21 (fst (setup_main toy_lib pulled_card_board)) =
       [Sd_Open PUBLIC_KEY_FILE, Sd_Open PRIVATE_KEY_FILE,
        Print ''Public key size: '', Println ''0'',
        Print ''Private key size: '', Println ''0'',
        Pk_Parse_Public_Key (''PUB'' @ zeroed 2045) 0,
        Print ''Failed to parse public key: '', Println ''PK - Invalid key tag or value'']
   \<and> Print ''Failed to open file: '' \<notin> set (fst (setup_main toy_lib pulled_card_board))
   \<and> snd (setup_main toy_lib pulled_card_board) = Halted Halt_Parse_Public"
  by (simp add: setup_blocks toy_defs pulled_card_board_def loadKeyFromSD_open
      file_size_closed dec_0 dec_one_digit)

section \<open>Encrypting and decrypting the message\<close>

text \<open>
  Reading an array as a C string after a NUL has been stored behind the first bytes gives
  those bytes up to their own first NUL, whatever the rest of the array holds.
\<close>

lemma cstr_after_store: "rest \<noteq> [] \<Longrightarrow> cstr ((p @ rest)[length p := NUL]) = cstr (p @ [NUL])"
proof (induction p)
  case Nil
  then show ?case
    by (cases rest) (simp_all add: cstr_def)
next
  case (Cons a p)
  then show ?case
    by (simp add: cstr_def)
qed

lemma cstr_without_NUL: "NUL \<notin> set m \<Longrightarrow> cstr (m @ [NUL]) = m"
  by (induction m) (auto simp add: cstr_def)

lemma message_has_no_NUL: "NUL \<notin> set message"
  by (simp add: message_def NUL_def)

text \<open>
  The decryption block calls the library on the first \<open>n\<close> bytes of the ciphertext array
  and prints the plaintext the call returned: when the call succeeds with fewer bytes
  than the array holds, the block prints them, read up to the NUL, and \<^verbatim>\<open>setup\<close> returns.
\<close>

lemma decrypt_block_prints_plaintext:
  assumes "mbedtls_pk_decrypt lib sk (take n ebuf) MAX_MESSAGE_LENGTH rng = (0, p, rng')"
    and "length p < MAX_MESSAGE_LENGTH" and "length dbuf = MAX_MESSAGE_LENGTH"
  shows "setup_decrypt lib sk rng ebuf n dbuf =
    ([Println ''Decrypting...'', Pk_Decrypt ebuf n dbuf MAX_MESSAGE_LENGTH 0 (length p),
      Print ''Decrypted message: '', Println (cstr (p @ [NUL])),
      Ctx_Free ''pk_ctx_pub'', Ctx_Free ''pk_ctx_priv'',
      Ctx_Free ''ctr_drbg'', Ctx_Free ''entropy'',
      Println ''Demo completed!''],
     Completed)"
  using assms by (simp add: setup_decrypt_def write_output_def emit_def cstr_after_store)

text \<open>
  The encryption block calls the library on \<^verbatim>\<open>message\<close>, prints the ciphertext the call
  returned and hands that ciphertext, with its length, to the decryption block.
\<close>

lemma encrypt_block_round_trip:
  assumes "mbedtls_pk_encrypt lib pk message MAX_ENCRYPTED_LENGTH rng = (0, c, rng')"
    and "length c \<le> MAX_ENCRYPTED_LENGTH"
    and "mbedtls_pk_decrypt lib sk c MAX_MESSAGE_LENGTH rng' = (0, p, rng'')"
    and "length p < MAX_MESSAGE_LENGTH"
  shows "setup_encrypt lib pk sk rng (zeroed MAX_ENCRYPTED_LENGTH) (zeroed MAX_MESSAGE_LENGTH) =
    ([Println ''Keys parsed successfully!'', Print ''Original message: '', Println message,
      Println ''Encrypting...''] @
     Pk_Encrypt message (length message) (zeroed MAX_ENCRYPTED_LENGTH) MAX_ENCRYPTED_LENGTH
       0 (length c) #
     Print ''Encrypted message (hex): '' # map (\<lambda>x. Print (hex x)) c @
     [Println [], Println ''Decrypting...'',
      Pk_Decrypt (c @ zeroed (MAX_ENCRYPTED_LENGTH - length c)) (length c)
        (zeroed MAX_MESSAGE_LENGTH) MAX_MESSAGE_LENGTH 0 (length p),
      Print ''Decrypted message: '', Println (cstr (p @ [NUL])),
      Ctx_Free ''pk_ctx_pub'', Ctx_Free ''pk_ctx_priv'',
      Ctx_Free ''ctr_drbg'', Ctx_Free ''entropy'',
      Println ''Demo completed!''],
     Completed)"
proof -
  from assms(2) have "take (length c) (c @ zeroed (MAX_ENCRYPTED_LENGTH - length c)) = c"
    by simp
  with assms(3,4)
  have "setup_decrypt lib sk rng' (c @ zeroed (MAX_ENCRYPTED_LENGTH - length c)) (length c)
      (zeroed MAX_MESSAGE_LENGTH) =
    ([Println ''Decrypting...'',
      Pk_Decrypt (c @ zeroed (MAX_ENCRYPTED_LENGTH - length c)) (length c)
        (zeroed MAX_MESSAGE_LENGTH) MAX_MESSAGE_LENGTH 0 (length p),
      Print ''Decrypted message: '', Println (cstr (p @ [NUL])),
      Ctx_Free ''pk_ctx_pub'', Ctx_Free ''pk_ctx_priv'',
      Ctx_Free ''ctr_drbg'', Ctx_Free ''entropy'',
      Println ''Demo completed!''],
     Completed)"
    by (simp add: decrypt_block_prints_plaintext)
  with assms(1,2) show ?thesis
    by (simp add: setup_encrypt_def Let_def write_output_def emit_def)
qed

text \<open>
  C1. Let the console and the card be ready, let the card hold the two key files, each
  fitting its 2048-byte array, let seeding succeed and let the library parse the two
  files into the keys \<open>pk\<close> and \<open>sk\<close>.

  First part, for any library: when the encrypt primitive, called on \<^verbatim>\<open>message\<close> with the
  output maximum 256, returns a ciphertext \<open>c\<close>, and the decrypt primitive, called on that
  ciphertext with the output maximum 100, returns a plaintext \<open>p\<close> of fewer than 100 bytes,
  then \<^verbatim>\<open>setup\<close> runs to its end and its last events are exactly: the encrypt call on
  \<^verbatim>\<open>message\<close> into the zeroed 256-byte array, the hexadecimal print of \<open>c\<close>, the decrypt call
  on the array holding \<open>c\<close> with the length of \<open>c\<close> into the zeroed 100-byte array, and the
  print of \<open>p\<close> read up to the NUL stored behind it.

  Second part, the claim: when \<open>pk\<close> and \<open>sk\<close> are a valid 2048-bit key pair, the two calls
  succeed in this way, the plaintext is \<^verbatim>\<open>message\<close>, and the text printed as the decrypted
  message is \<^verbatim>\<open>message\<close>.
\<close>

theorem encrypt_then_decrypt_reproduces_message:
  assumes "Serial_ready_after b = Some polls" and "SD_begin b"
    and "card_holds b pub priv"
    and "pub \<noteq> []" and "length pub \<le> 2048" and "priv \<noteq> []" and "length priv \<le> 2048"
    and "mbedtls_ctr_drbg_seed lib pers = (0, rng)"
    and "mbedtls_pk_parse_public_key lib pub = (0, pk)"
    and "mbedtls_pk_parse_key lib priv = (0, sk)"
  shows
  "(mbedtls_pk_encrypt lib pk message MAX_ENCRYPTED_LENGTH rng = (0, c, rng') \<and>
    length c \<le> MAX_ENCRYPTED_LENGTH \<and>
    mbedtls_pk_decrypt lib sk c MAX_MESSAGE_LENGTH rng' = (0, p, rng'') \<and>
    length p < MAX_MESSAGE_LENGTH \<longrightarrow>
      snd (setup_main lib b) = Completed \<and>
      suffix
        (Pk_Encrypt message (length message) (zeroed MAX_ENCRYPTED_LENGTH)
           MAX_ENCRYPTED_LENGTH 0 (length c) #
         Print ''Encrypted message (hex): '' # map (\<lambda>x. Print (hex x)) c @
         [Println [], Println ''Decrypting...'',
          Pk_Decrypt (c @ zeroed (MAX_ENCRYPTED_LENGTH - length c)) (length c)
            (zeroed MAX_MESSAGE_LENGTH) MAX_MESSAGE_LENGTH 0 (length p),
          Print ''Decrypted message: '', Println (cstr (p @ [NUL])),
          Ctx_Free ''pk_ctx_pub'', Ctx_Free ''pk_ctx_priv'',
          Ctx_Free ''ctr_drbg'', Ctx_Free ''entropy'',
          Println ''Demo completed!''])
        (fst (setup_main lib b)))
   \<and> (rsa2048_key_pair lib pk sk \<longrightarrow>
      (\<exists>c rng' rng''.
         mbedtls_pk_encrypt lib pk message MAX_ENCRYPTED_LENGTH rng = (0, c, rng') \<and>
         mbedtls_pk_decrypt lib sk c MAX_MESSAGE_LENGTH rng' = (0, message, rng'') \<and>
         snd (setup_main lib b) = Completed \<and>
         suffix
           (Pk_Encrypt message (length message) (zeroed MAX_ENCRYPTED_LENGTH)
              MAX_ENCRYPTED_LENGTH 0 (length c) #
            Print ''Encrypted message (hex): '' # map (\<lambda>x. Print (hex x)) c @
            [Println [], Println ''Decrypting...'',
             Pk_Decrypt (c @ zeroed (MAX_ENCRYPTED_LENGTH - length c)) (length c)
               (zeroed MAX_MESSAGE_LENGTH) MAX_MESSAGE_LENGTH 0 (length message),
             Print ''Decrypted message: '', Println message,
             Ctx_Free ''pk_ctx_pub'', Ctx_Free ''pk_ctx_priv'',
             Ctx_Free ''ctr_drbg'', Ctx_Free ''entropy'',
             Println ''Demo completed!''])
           (fst (setup_main lib b))))"
proof -
  have run: "snd (setup_main lib b) = Completed \<and>
      suffix
        (Pk_Encrypt message (length message) (zeroed MAX_ENCRYPTED_LENGTH)
           MAX_ENCRYPTED_LENGTH 0 (length c) #
         Print ''Encrypted message (hex): '' # map (\<lambda>x. Print (hex x)) c @
         [Println [], Println ''Decrypting...'',
          Pk_Decrypt (c @ zeroed (MAX_ENCRYPTED_LENGTH - length c)) (length c)
            (zeroed MAX_MESSAGE_LENGTH) MAX_MESSAGE_LENGTH 0 (length p),
          Print ''Decrypted message: '', Println (cstr (p @ [NUL])),
          Ctx_Free ''pk_ctx_pub'', Ctx_Free ''pk_ctx_priv'',
          Ctx_Free ''ctr_drbg'', Ctx_Free ''entropy'',
          Println ''Demo completed!''])
        (fst (setup_main lib b))"
    if "mbedtls_pk_encrypt lib pk message MAX_ENCRYPTED_LENGTH rng = (0, c, rng')"
      and "length c \<le> MAX_ENCRYPTED_LENGTH"
      and "mbedtls_pk_decrypt lib sk c MAX_MESSAGE_LENGTH rng' = (0, p, rng'')"
      and "length p < MAX_MESSAGE_LENGTH"
    for c rng' p rng''
    using assms encrypt_block_round_trip [OF that]
    by (simp add: setup_main_def setup_load_def setup_seed_def setup_parse_def Let_def
        card_holds_def loadKeyFromSD_open file_size_open suffix_ConsI suffix_appendI)
  have valid: "\<exists>c rng' rng''.
         mbedtls_pk_encrypt lib pk message MAX_ENCRYPTED_LENGTH rng = (0, c, rng') \<and>
         mbedtls_pk_decrypt lib sk c MAX_MESSAGE_LENGTH rng' = (0, message, rng'') \<and>
         snd (setup_main lib b) = Completed \<and>
         suffix
           (Pk_Encrypt message (length message) (zeroed MAX_ENCRYPTED_LENGTH)
              MAX_ENCRYPTED_LENGTH 0 (length c) #
            Print ''Encrypted message (hex): '' # map (\<lambda>x. Print (hex x)) c @
            [Println [], Println ''Decrypting...'',
             Pk_Decrypt (c @ zeroed (MAX_ENCRYPTED_LENGTH - length c)) (length c)
               (zeroed MAX_MESSAGE_LENGTH) MAX_MESSAGE_LENGTH 0 (length message),
             Print ''Decrypted message: '', Println message,
             Ctx_Free ''pk_ctx_pub'', Ctx_Free ''pk_ctx_priv'',
             Ctx_Free ''ctr_drbg'', Ctx_Free ''entropy'',
             Println ''Demo completed!''])
           (fst (setup_main lib b))"
    if pair: "rsa2048_key_pair lib pk sk"
  proof -
    have fits: "length message \<le> 245 \<and> 256 \<le> MAX_ENCRYPTED_LENGTH"
      by (simp add: length_message MAX_ENCRYPTED_LENGTH_def)
    from pair
    have "length message \<le> 245 \<and> 256 \<le> MAX_ENCRYPTED_LENGTH \<longrightarrow>
        (\<exists>c rng'. mbedtls_pk_encrypt lib pk message MAX_ENCRYPTED_LENGTH rng = (0, c, rng') \<and>
           length c \<le> 256 \<and>
           (\<forall>omax. length message \<le> omax \<longrightarrow>
              (\<exists>rng''. mbedtls_pk_decrypt lib sk c omax rng' = (0, message, rng''))))"
      unfolding rsa2048_key_pair_def by blast
    with fits obtain c rng'
      where enc: "mbedtls_pk_encrypt lib pk message MAX_ENCRYPTED_LENGTH rng = (0, c, rng')"
        and c: "length c \<le> MAX_ENCRYPTED_LENGTH"
        and inv: "\<forall>omax. length message \<le> omax \<longrightarrow>
                   (\<exists>rng''. mbedtls_pk_decrypt lib sk c omax rng' = (0, message, rng''))"
      unfolding MAX_ENCRYPTED_LENGTH_def by blast
    have "length message \<le> MAX_MESSAGE_LENGTH"
      by (simp add: length_message MAX_MESSAGE_LENGTH_def)
    with inv obtain rng''
      where dec: "mbedtls_pk_decrypt lib sk c MAX_MESSAGE_LENGTH rng' = (0, message, rng'')"
      by blast
    have short: "length message < MAX_MESSAGE_LENGTH"
      by (simp add: length_message MAX_MESSAGE_LENGTH_def)
    from run [OF enc c dec short] enc dec show ?thesis
      by (auto simp add: cstr_without_NUL message_has_no_NUL)
  qed
  from run valid show ?thesis
    by blast
qed

text \<open>\<open>toy_lib\<close> meets the hypothesis on the library for the keys it parses.\<close>

lemma toy_lib_key_pair: "rsa2048_key_pair toy_lib 1 2"
  by (auto simp add: rsa2048_key_pair_def toy_lib_def toy_encrypt_def toy_decrypt_def)

theorem encrypt_then_decrypt_reproduces_message_witness:
  "card_holds (steady_board (Some ''PUB'') (Some ''PRIV'')) ''PUB'' ''PRIV''
   \<and> rsa2048_key_pair toy_lib 1 2
   \<and> mbedtls_pk_encrypt toy_lib 1 message MAX_ENCRYPTED_LENGTH 11
       = (0, char_of (40::nat) # message @ zeroed 215, 12)
   \<and> mbedtls_pk_decrypt toy_lib 2 (char_of (40::nat) # message @ zeroed 215) MAX_MESSAGE_LENGTH 12
       = (0, message, 12)
   \<and> snd (setup_main toy_lib (steady_board (Some ''PUB'') (Some ''PRIV''))) = Completed
   \<and> suffix
       [Println [], Println ''Decrypting...'',
        Pk_Decrypt (char_of (40::nat) # message @ zeroed 215) 256 (zeroed 100) 100 0 40,
        Print ''Decrypted message: '', Println message,
        Ctx_Free ''pk_ctx_pub'', Ctx_Free ''pk_ctx_priv'',
        Ctx_Free ''ctr_drbg'', Ctx_Free ''entropy'',
        Println ''Demo completed!'']
       (fst (setup_main toy_lib (steady_board (Some ''PUB'') (Some ''PRIV''))))"
proof -
  let ?b = "steady_board (Some ''PUB'') (Some ''PRIV'')"
  let ?c = "char_of (40::nat) # message @ zeroed 215"
  have card: "card_holds ?b ''PUB'' ''PRIV''"
    by (simp add: steady_board_def files_def PUBLIC_KEY_FILE_def PRIVATE_KEY_FILE_def
        card_holds_def)
  have enc: "mbedtls_pk_encrypt toy_lib 1 message MAX_ENCRYPTED_LENGTH 11 = (0, ?c, 12)"
    by (simp add: toy_lib_def toy_encrypt_def length_message MAX_ENCRYPTED_LENGTH_def)
  have dec: "mbedtls_pk_decrypt toy_lib 2 ?c MAX_MESSAGE_LENGTH 12 = (0, message, 12)"
    by (simp add: toy_lib_def toy_decrypt_def length_message MAX_MESSAGE_LENGTH_def)
  have len: "length ?c \<le> MAX_ENCRYPTED_LENGTH" "length message < MAX_MESSAGE_LENGTH"
    by (simp_all add: length_message MAX_ENCRYPTED_LENGTH_def MAX_MESSAGE_LENGTH_def)
  have run: "snd (setup_main toy_lib ?b) = Completed \<and>
      suffix
        (Pk_Encrypt message (length message) (zeroed MAX_ENCRYPTED_LENGTH)
           MAX_ENCRYPTED_LENGTH 0 (length ?c) #
         Print ''Encrypted message (hex): '' # map (\<lambda>x. Print (hex x)) ?c @
         [Println [], Println ''Decrypting...'',
          Pk_Decrypt (?c @ zeroed (MAX_ENCRYPTED_LENGTH - length ?c)) (length ?c)
            (zeroed MAX_MESSAGE_LENGTH) MAX_MESSAGE_LENGTH 0 (length message),
          Print ''Decrypted message: '', Println (cstr (message @ [NUL])),
          Ctx_Free ''pk_ctx_pub'', Ctx_Free ''pk_ctx_priv'',
          Ctx_Free ''ctr_drbg'', Ctx_Free ''entropy'',
          Println ''Demo completed!''])
        (fst (setup_main toy_lib ?b))"
    using encrypt_then_decrypt_reproduces_message
            [where b = ?b and polls = 0 and pub = "''PUB''" and priv = "''PRIV''"
               and lib = toy_lib and rng = 11 and pk = 1 and sk = 2
               and c = ?c and rng' = 12 and p = message and rng'' = 12]
          card enc dec len
    by (simp add: toy_lib_def steady_board_def pers_def)
  have "suffix
       [Println [], Println ''Decrypting...'',
        Pk_Decrypt ?c 256 (zeroed 100) 100 0 40,
        Print ''Decrypted message: '', Println message,
        Ctx_Free ''pk_ctx_pub'', Ctx_Free ''pk_ctx_priv'',
        Ctx_Free ''ctr_drbg'', Ctx_Free ''entropy'',
        Println ''Demo completed!'']
       (Pk_Encrypt message (length message) (zeroed MAX_ENCRYPTED_LENGTH)
           MAX_ENCRYPTED_LENGTH 0 (length ?c) #
         Print ''Encrypted message (hex): '' # map (\<lambda>x. Print (hex x)) ?c @
         [Println [], Println ''Decrypting...'',
          Pk_Decrypt (?c @ zeroed (MAX_ENCRYPTED_LENGTH - length ?c)) (length ?c)
            (zeroed MAX_MESSAGE_LENGTH) MAX_MESSAGE_LENGTH 0 (length message),
          Print ''Decrypted message: '', Println (cstr (message @ [NUL])),
          Ctx_Free ''pk_ctx_pub'', Ctx_Free ''pk_ctx_priv'',
          Ctx_Free ''ctr_drbg'', Ctx_Free ''entropy'',
          Println ''Demo completed!''])"
    by (simp add: length_message MAX_ENCRYPTED_LENGTH_def MAX_MESSAGE_LENGTH_def
        cstr_without_NUL message_has_no_NUL suffix_ConsI suffix_appendI zeroed_def)
  with run have "suffix
       [Println [], Println ''Decrypting...'',
        Pk_Decrypt ?c 256 (zeroed 100) 100 0 40,
        Print ''Decrypted message: '', Println message,
        Ctx_Free ''pk_ctx_pub'', Ctx_Free ''pk_ctx_priv'',
        Ctx_Free ''ctr_drbg'', Ctx_Free ''entropy'',
        Println ''Demo completed!'']
       (fst (setup_main toy_lib ?b))"
    by (blast intro: suffix_order.trans)
  with card toy_lib_key_pair enc dec run show ?thesis
    by simp
qed


end
